theory Spec2Isabelle
  imports Complex_Main
begin

section \<open>Geometry and window states\<close>

text \<open>
  The geometry types of the compositor library are integer valued: a rectangle is a
  top-left point and a size (\<^verbatim>\<open>logical_area.top_left.x.as_int()\<close>,
  \<^verbatim>\<open>logical_area.size.width.as_int()\<close>). Coordinates are modelled as \<open>int\<close>; the
  arithmetic of the source is the same as long as no signed overflow (undefined in C++)
  occurs.
\<close>

record point =
  px :: int
  py :: int

record size2d =
  width :: int
  height :: int

record rectangle =
  top_left :: point
  rsize :: size2d

text \<open>\<^verbatim>\<open>geom::Rectangle { geom::Point { x, y }, geom::Size { width, height } }\<close>\<close>

definition Rectangle :: "int \<Rightarrow> int \<Rightarrow> int \<Rightarrow> int \<Rightarrow> rectangle" where
  "Rectangle x y w h = \<lparr>top_left = \<lparr>px = x, py = y\<rparr>, rsize = \<lparr>width = w, height = h\<rparr>\<rparr>"

text \<open>The enumeration \<^verbatim>\<open>MirWindowState\<close> of the compositor library's toolkit header.\<close>

datatype MirWindowState =
    mir_window_state_unknown
  | mir_window_state_restored
  | mir_window_state_minimized
  | mir_window_state_maximized
  | mir_window_state_vertmaximized
  | mir_window_state_fullscreen
  | mir_window_state_horizmaximized
  | mir_window_state_hidden
  | mir_window_state_attached

text \<open>\<^verbatim>\<open>enum class Direction\<close>; it indexes the array returned by \<^verbatim>\<open>get_neighbors()\<close>.\<close>

datatype Direction = left | right | up | down

text \<open>A \<^verbatim>\<open>miral::Window\<close> is a handle; two handles are equal when they denote the same window.\<close>

type_synonym window = nat

section \<open>The tiling interface\<close>

text \<open>
  \<^verbatim>\<open>TilingInterface\<close> is an abstract class implemented by the host. Its four commands
  (\<^verbatim>\<open>change_state\<close>, \<^verbatim>\<open>clip\<close>, \<^verbatim>\<open>noclip\<close>, \<^verbatim>\<open>set_rectangle\<close>) are recorded, in
  order, in the list of calls made so far; its two queries (\<^verbatim>\<open>is_fullscreen\<close>,
  \<^verbatim>\<open>get_state\<close>) are answered by the host from that history. Nothing is assumed about
  how a host answers.
\<close>

datatype host_call =
    change_state window MirWindowState
  | clip window rectangle
  | noclip window
  | set_rectangle window rectangle rectangle

record tiling_interface =
  ti_is_fullscreen :: "host_call list \<Rightarrow> window \<Rightarrow> bool"
  ti_get_state :: "host_call list \<Rightarrow> window \<Rightarrow> MirWindowState"

section \<open>LeafNode\<close>

record miracle_config =
  inner_gaps_x :: int
  inner_gaps_y :: int

record leaf_node =
  config :: miracle_config
  window :: window
  logical_area :: rectangle
  next_logical_area :: "rectangle option"
  next_state :: "MirWindowState option"
  before_shown_state :: "MirWindowState option"

text \<open>
  \<^verbatim>\<open>(int)(ceil((double)gap / 2.0))\<close>. A 32-bit integer is exactly representable as a
  double, halving it is exact, and so is \<open>ceil\<close>: the value is the mathematical ceiling.
\<close>

definition half_gap :: "int \<Rightarrow> int" where
  "half_gap gap = \<lceil>real_of_int gap / 2\<rceil>"

text \<open>
  \<^verbatim>\<open>LeafNode::get_visible_area\<close>. The array returned by \<^verbatim>\<open>get_neighbors()\<close> (a method
  of the node base class, which depends on the position of the leaf in its lane) is the
  parameter \<open>neighbors\<close>.
\<close>

definition get_visible_area :: "(Direction \<Rightarrow> bool) \<Rightarrow> leaf_node \<Rightarrow> rectangle" where
  "get_visible_area neighbors leaf =
    (let half_gap_x = half_gap (inner_gaps_x (config leaf));
         half_gap_y = half_gap (inner_gaps_y (config leaf));
         x = px (top_left (logical_area leaf));
         y = py (top_left (logical_area leaf));
         width = width (rsize (logical_area leaf));
         height = height (rsize (logical_area leaf));
         (x, width) = (if neighbors left then (x + half_gap_x, width - half_gap_x) else (x, width));
         width = (if neighbors right then width - half_gap_x else width);
         (y, height) = (if neighbors up then (y + half_gap_y, height - half_gap_y) else (y, height));
         height = (if neighbors down then height - half_gap_y else height)
     in Rectangle x y width height)"

definition get_logical_area :: "leaf_node \<Rightarrow> rectangle" where
  "get_logical_area leaf =
    (case next_logical_area leaf of Some r \<Rightarrow> r | None \<Rightarrow> logical_area leaf)"

definition set_logical_area :: "rectangle \<Rightarrow> leaf_node \<Rightarrow> leaf_node" where
  "set_logical_area target_rect leaf = leaf\<lparr>next_logical_area := Some target_rect\<rparr>"

text \<open>\<^verbatim>\<open>LeafNode::constrain\<close>: the calls made so far go in, the extended list comes out.\<close>

definition constrain ::
  "tiling_interface \<Rightarrow> (Direction \<Rightarrow> bool) \<Rightarrow> leaf_node \<Rightarrow> host_call list \<Rightarrow> host_call list" where
  "constrain ni neighbors leaf calls =
    (if ti_is_fullscreen ni calls (window leaf)
     then calls @ [noclip (window leaf)]
     else calls @ [clip (window leaf) (get_visible_area neighbors leaf)])"

definition show_leaf :: "leaf_node \<Rightarrow> leaf_node" where
  "show_leaf leaf = leaf\<lparr>next_state := before_shown_state leaf, before_shown_state := None\<rparr>"

definition hide :: "tiling_interface \<Rightarrow> host_call list \<Rightarrow> leaf_node \<Rightarrow> leaf_node" where
  "hide ni calls leaf =
    leaf\<lparr>before_shown_state := Some (ti_get_state ni calls (window leaf)),
         next_state := Some mir_window_state_hidden\<rparr>"

definition toggle_fullscreen :: "tiling_interface \<Rightarrow> host_call list \<Rightarrow> leaf_node \<Rightarrow> leaf_node" where
  "toggle_fullscreen ni calls leaf =
    (if ti_is_fullscreen ni calls (window leaf)
     then leaf\<lparr>next_state := Some mir_window_state_restored\<rparr>
     else leaf\<lparr>next_state := Some mir_window_state_maximized\<rparr>)"

definition is_fullscreen :: "tiling_interface \<Rightarrow> host_call list \<Rightarrow> leaf_node \<Rightarrow> bool" where
  "is_fullscreen ni calls leaf =
    (ti_get_state ni calls (window leaf) = mir_window_state_maximized)"

text \<open>
  \<^verbatim>\<open>LeafNode::commit_changes\<close>, on the pair of the leaf and the calls made so far. The
  first \<^verbatim>\<open>if\<close> of the source is \<open>commit_state\<close>, the second is \<open>commit_area\<close>.
\<close>

definition commit_state ::
  "tiling_interface \<Rightarrow> (Direction \<Rightarrow> bool) \<Rightarrow> leaf_node \<times> host_call list \<Rightarrow> leaf_node \<times> host_call list" where
  "commit_state ni neighbors s =
    (case s of (leaf, calls) \<Rightarrow>
      (case next_state leaf of
         Some st \<Rightarrow>
           (let calls = calls @ [change_state (window leaf) st];
                calls = constrain ni neighbors leaf calls
            in (leaf\<lparr>next_state := None\<rparr>, calls))
       | None \<Rightarrow> (leaf, calls)))"

definition commit_area ::
  "tiling_interface \<Rightarrow> (Direction \<Rightarrow> bool) \<Rightarrow> leaf_node \<times> host_call list \<Rightarrow> leaf_node \<times> host_call list" where
  "commit_area ni neighbors s =
    (case s of (leaf, calls) \<Rightarrow>
      (case next_logical_area leaf of
         Some r \<Rightarrow>
           (let previous = get_visible_area neighbors leaf;
                leaf = leaf\<lparr>logical_area := r, next_logical_area := None\<rparr>
            in if \<not> ti_is_fullscreen ni calls (window leaf)
               then (let calls = calls @ [set_rectangle (window leaf) previous (get_visible_area neighbors leaf)]
                     in (leaf, constrain ni neighbors leaf calls))
               else (leaf, calls))
       | None \<Rightarrow> (leaf, calls)))"

definition commit_changes ::
  "tiling_interface \<Rightarrow> (Direction \<Rightarrow> bool) \<Rightarrow> leaf_node \<times> host_call list \<Rightarrow> leaf_node \<times> host_call list" where
  "commit_changes ni neighbors s = commit_area ni neighbors (commit_state ni neighbors s)"

section \<open>OutputContent\<close>

text \<open>
  \<^verbatim>\<open>enum class WindowType\<close>. The switches of the source name \<open>tiled\<close>, \<open>floating\<close> and
  \<open>other\<close> and end in a \<^verbatim>\<open>default:\<close> branch; \<open>unsupported\<close> stands for any value that
  reaches that branch.
\<close>

datatype WindowType = tiled | floating | other | unsupported

text \<open>
  \<^verbatim>\<open>TilingWindowTree\<close> is used by the output through three methods. What they answer is
  the tree's business; here each answer is a field. \<open>tree_confirm_placement_on_display\<close>
  gives the rectangle the tree leaves in the placement it is handed.
\<close>

record tiling_window_tree =
  has_fullscreen_window :: bool
  tree_select_window_from_point :: "int \<Rightarrow> int \<Rightarrow> leaf_node option"
  tree_confirm_placement_on_display :: "window \<Rightarrow> MirWindowState \<Rightarrow> rectangle \<Rightarrow> rectangle"

text \<open>\<^verbatim>\<open>WorkspaceContent\<close>; \<open>workspace_key\<close> is its member \<^verbatim>\<open>workspace\<close>.\<close>

record workspace_content =
  workspace_key :: int
  tree :: tiling_window_tree
  floating_windows :: "window list"

definition get_workspace :: "workspace_content \<Rightarrow> int" where
  "get_workspace info = workspace_key info"

definition get_tree :: "workspace_content \<Rightarrow> tiling_window_tree" where
  "get_tree info = tree info"

definition get_floating_windows :: "workspace_content \<Rightarrow> window list" where
  "get_floating_windows info = floating_windows info"

text \<open>\<^verbatim>\<open>WindowMetadata\<close>: \<open>md_tiling_node\<close> is the tree of the associated leaf, if any.\<close>

record window_metadata =
  md_type :: WindowType
  md_window :: window
  md_tiling_node :: "tiling_window_tree option"

definition get_tiling_node :: "window_metadata \<Rightarrow> tiling_window_tree option" where
  "get_tiling_node metadata =
    (if md_type metadata = tiled then md_tiling_node metadata else None)"

record output_content =
  workspaces :: "workspace_content list"
  active_workspace :: int
  active_window :: window

text \<open>
  What the output asks of the host and of the floating window manager: the position and
  size of a window, the point containment test of the geometry library, and the floating
  window manager's own \<^verbatim>\<open>confirm_placement_on_display\<close>.
\<close>

record output_env =
  window_top_left :: "window \<Rightarrow> point"
  window_size :: "window \<Rightarrow> size2d"
  contains :: "rectangle \<Rightarrow> point \<Rightarrow> bool"
  fwm_confirm_placement_on_display :: "window \<Rightarrow> MirWindowState \<Rightarrow> rectangle \<Rightarrow> rectangle"

datatype error = runtime_error string | null_dereference

text \<open>\<^verbatim>\<open>OutputContent::get_active_workspace\<close>: the loop, then the \<^verbatim>\<open>throw\<close>.\<close>

fun find_active_workspace :: "int \<Rightarrow> workspace_content list \<Rightarrow> error + workspace_content" where
  "find_active_workspace active [] =
     Inl (runtime_error ''get_active_workspace: unable to find the active workspace. We shouldn't be here!'')"
| "find_active_workspace active (info # rest) =
     (if get_workspace info = active then Inr info else find_active_workspace active rest)"

definition get_active_workspace :: "output_content \<Rightarrow> error + workspace_content" where
  "get_active_workspace oc = find_active_workspace (active_workspace oc) (workspaces oc)"

text \<open>
  \<^verbatim>\<open>OutputContent::confirm_placement_on_display\<close>. Calling through a null tiling node is
  the outcome \<open>null_dereference\<close>.
\<close>

definition confirm_placement_on_display ::
  "output_env \<Rightarrow> window_metadata \<Rightarrow> MirWindowState \<Rightarrow> rectangle \<Rightarrow> error + rectangle" where
  "confirm_placement_on_display env metadata new_state new_placement =
    (let modified_placement = new_placement in
     case md_type metadata of
       tiled \<Rightarrow>
         (case get_tiling_node metadata of
            None \<Rightarrow> Inl null_dereference
          | Some t \<Rightarrow>
              (let modified_placement =
                     tree_confirm_placement_on_display t (md_window metadata) new_state modified_placement
               in Inr new_placement))
     | floating \<Rightarrow>
         Inr (fwm_confirm_placement_on_display env (md_window metadata) new_state new_placement)
     | _ \<Rightarrow> Inr new_placement)"

text \<open>
  \<^verbatim>\<open>OutputContent::select_window_from_point\<close>. What the method does is the list of the
  calls it makes: asking the tree for the leaf at the point, and
  \<^verbatim>\<open>tools.select_active_window\<close>. The local \<^verbatim>\<open>floating\<close> of the source is
  \<open>floating_list\<close> here.
\<close>

datatype output_call =
    tree_select_from_point int int
  | select_active_window window

text \<open>
  The loop over the floating windows, from index \<open>i\<close> with the current
  \<open>floating_index\<close>: \<open>None\<close> is the \<^verbatim>\<open>return\<close> inside the loop, \<open>Some\<close> the index
  the loop ends with.
\<close>

fun floating_loop ::
  "output_env \<Rightarrow> window \<Rightarrow> int \<Rightarrow> int \<Rightarrow> window list \<Rightarrow> int \<Rightarrow> int \<Rightarrow> int option" where
  "floating_loop env active x y [] i floating_index = Some floating_index"
| "floating_loop env active x y (f # rest) i floating_index =
     (let window_area = \<lparr>top_left = window_top_left env f, rsize = window_size env f\<rparr> in
      if f = active \<and> contains env window_area \<lparr>px = x, py = y\<rparr> then None
      else if contains env window_area \<lparr>px = x, py = y\<rparr>
           then floating_loop env active x y rest (i + 1) i
           else floating_loop env active x y rest (i + 1) floating_index)"

definition select_window_from_point ::
  "output_env \<Rightarrow> output_content \<Rightarrow> int \<Rightarrow> int \<Rightarrow> error + output_call list" where
  "select_window_from_point env oc x y =
    (case get_active_workspace oc of
       Inl e \<Rightarrow> Inl e
     | Inr workspace \<Rightarrow>
         if has_fullscreen_window (get_tree workspace) then Inr []
         else
           (let floating_list = get_floating_windows workspace in
            case floating_loop env (active_window oc) x y floating_list 0 (- 1) of
              None \<Rightarrow> Inr []
            | Some floating_index \<Rightarrow>
                if floating_index \<ge> 0
                then Inr [select_active_window (floating_list ! nat floating_index)]
                else
                  (case tree_select_window_from_point (get_tree workspace) x y of
                     None \<Rightarrow> Inr [tree_select_from_point x y]
                   | Some node \<Rightarrow>
                       if window node \<noteq> active_window oc
                       then Inr [tree_select_from_point x y, select_active_window (window node)]
                       else Inr [tree_select_from_point x y])))"

section \<open>Vocabulary of the properties\<close>

text \<open>The edges of a rectangle; the right and bottom edges are exclusive.\<close>

definition left_edge :: "rectangle \<Rightarrow> int" where
  "left_edge r = px (top_left r)"

definition right_edge :: "rectangle \<Rightarrow> int" where
  "right_edge r = px (top_left r) + width (rsize r)"

definition top_edge :: "rectangle \<Rightarrow> int" where
  "top_edge r = py (top_left r)"

definition bottom_edge :: "rectangle \<Rightarrow> int" where
  "bottom_edge r = py (top_left r) + height (rsize r)"

text \<open>One rectangle lies within another: no edge of the inner one is outside the outer one.\<close>

definition rectangle_within :: "rectangle \<Rightarrow> rectangle \<Rightarrow> bool" where
  "rectangle_within inner outer =
    (left_edge outer \<le> left_edge inner \<and> right_edge inner \<le> right_edge outer \<and>
     top_edge outer \<le> top_edge inner \<and> bottom_edge inner \<le> bottom_edge outer)"

text \<open>The pixels a rectangle covers.\<close>

definition pixels :: "rectangle \<Rightarrow> (int \<times> int) set" where
  "pixels r = {(a, b). left_edge r \<le> a \<and> a < right_edge r \<and> top_edge r \<le> b \<and> b < bottom_edge r}"

text \<open>The amount a side is shrunk by when it has a neighbor: half the gap of its axis.\<close>

fun side_shrink :: "miracle_config \<Rightarrow> Direction \<Rightarrow> int" where
  "side_shrink c left = half_gap (inner_gaps_x c)"
| "side_shrink c right = half_gap (inner_gaps_x c)"
| "side_shrink c up = half_gap (inner_gaps_y c)"
| "side_shrink c down = half_gap (inner_gaps_y c)"

text \<open>The point \<open>(x, y)\<close> is in the area of a window, by the containment test of the output.\<close>

definition point_in_window :: "output_env \<Rightarrow> int \<Rightarrow> int \<Rightarrow> window \<Rightarrow> bool" where
  "point_in_window env x y f =
     contains env \<lparr>top_left = window_top_left env f, rsize = window_size env f\<rparr> \<lparr>px = x, py = y\<rparr>"

text \<open>The one call \<open>constrain\<close> makes after the calls \<open>calls\<close>.\<close>

definition constrain_call ::
  "tiling_interface \<Rightarrow> (Direction \<Rightarrow> bool) \<Rightarrow> leaf_node \<Rightarrow> host_call list \<Rightarrow> host_call" where
  "constrain_call ni neighbors leaf calls =
    (if ti_is_fullscreen ni calls (window leaf) then noclip (window leaf)
     else clip (window leaf) (get_visible_area neighbors leaf))"

section \<open>Example hosts and nodes\<close>

text \<open>
  A host that reports, for each window, the state it was last given (restored when it was
  given none), and takes the maximized and fullscreen states for fullscreen.
\<close>

fun last_state :: "MirWindowState \<Rightarrow> host_call list \<Rightarrow> window \<Rightarrow> MirWindowState" where
  "last_state s [] w = s"
| "last_state s (change_state w' st # cs) w = last_state (if w' = w then st else s) cs w"
| "last_state s (c # cs) w = last_state s cs w"

definition example_host :: "MirWindowState \<Rightarrow> tiling_interface" where
  "example_host initial =
    \<lparr>ti_is_fullscreen = (\<lambda>calls w. last_state initial calls w = mir_window_state_maximized
                                   \<or> last_state initial calls w = mir_window_state_fullscreen),
     ti_get_state = (\<lambda>calls w. last_state initial calls w)\<rparr>"

definition example_leaf :: leaf_node where
  "example_leaf =
    \<lparr>config = \<lparr>inner_gaps_x = 7, inner_gaps_y = 9\<rparr>, window = 1,
     logical_area = Rectangle 100 50 800 600, next_logical_area = None,
     next_state = None, before_shown_state = None\<rparr>"

definition all_neighbors :: "Direction \<Rightarrow> bool" where
  "all_neighbors d = True"

text \<open>Windows are boxes of 100 by 100 pixels at \<open>(100 * w, 0)\<close>; a box contains its interior.\<close>

definition example_env :: output_env where
  "example_env =
    \<lparr>window_top_left = (\<lambda>w. \<lparr>px = 100 * int w, py = 0\<rparr>),
     window_size = (\<lambda>w. \<lparr>width = 100, height = 100\<rparr>),
     contains = (\<lambda>r p. px (top_left r) \<le> px p \<and> px p < px (top_left r) + width (rsize r)
                       \<and> py (top_left r) \<le> py p \<and> py p < py (top_left r) + height (rsize r)),
     fwm_confirm_placement_on_display = (\<lambda>w st r. Rectangle 0 0 1 1)\<rparr>"

definition example_tree :: "bool \<Rightarrow> tiling_window_tree" where
  "example_tree fs =
    \<lparr>has_fullscreen_window = fs,
     tree_select_window_from_point = (\<lambda>x y. Some example_leaf),
     tree_confirm_placement_on_display = (\<lambda>w st r. Rectangle 5 5 10 10)\<rparr>"

definition example_output :: "bool \<Rightarrow> window list \<Rightarrow> window \<Rightarrow> output_content" where
  "example_output fs fl active =
    \<lparr>workspaces = [\<lparr>workspace_key = 1, tree = example_tree False, floating_windows = []\<rparr>,
                   \<lparr>workspace_key = 2, tree = example_tree fs, floating_windows = fl\<rparr>],
     active_workspace = 2, active_window = active\<rparr>"

section \<open>Properties of LeafNode\<close>

lemma half_gap_div: "half_gap gap = (gap + 1) div 2"
  unfolding half_gap_def by linarith

declare half_gap_div [code]

lemma half_gap_nonneg: "0 \<le> gap \<Longrightarrow> 0 \<le> half_gap gap"
  unfolding half_gap_div by simp

lemma get_visible_area_eq:
  "get_visible_area neighbors leaf =
     Rectangle
       (px (top_left (logical_area leaf)) + (if neighbors left then half_gap (inner_gaps_x (config leaf)) else 0))
       (py (top_left (logical_area leaf)) + (if neighbors up then half_gap (inner_gaps_y (config leaf)) else 0))
       (width (rsize (logical_area leaf))
          - (if neighbors left then half_gap (inner_gaps_x (config leaf)) else 0)
          - (if neighbors right then half_gap (inner_gaps_x (config leaf)) else 0))
       (height (rsize (logical_area leaf))
          - (if neighbors up then half_gap (inner_gaps_y (config leaf)) else 0)
          - (if neighbors down then half_gap (inner_gaps_y (config leaf)) else 0))"
  by (simp add: get_visible_area_def Let_def)

lemma rect_simps:
  "top_left (Rectangle x y w h) = \<lparr>px = x, py = y\<rparr>"
  "rsize (Rectangle x y w h) = \<lparr>width = w, height = h\<rparr>"
  "left_edge (Rectangle x y w h) = x"
  "right_edge (Rectangle x y w h) = x + w"
  "top_edge (Rectangle x y w h) = y"
  "bottom_edge (Rectangle x y w h) = y + h"
  by (simp_all add: Rectangle_def left_edge_def right_edge_def top_edge_def bottom_edge_def)

lemma half_gap_numeral:
  "half_gap (numeral n) = (numeral n + 1) div 2"
  by (simp add: half_gap_div)

lemma sides_sum:
  "(\<Sum>d\<leftarrow>filter neighbors [left, right, up, down]. side_shrink c d) =
     (if neighbors left then half_gap (inner_gaps_x c) else 0)
   + (if neighbors right then half_gap (inner_gaps_x c) else 0)
   + (if neighbors up then half_gap (inner_gaps_y c) else 0)
   + (if neighbors down then half_gap (inner_gaps_y c) else 0)"
  by simp

subsection \<open>The visible area\<close>

text \<open>
  C1, as stated: for every leaf the visible area is contained in the logical area. It is
  not when a gap is negative, which the method does not exclude: with gaps \<open>-7\<close> and
  \<open>-9\<close> the half gaps are \<open>-3\<close> and \<open>-4\<close>, and a leaf at \<open>(100, 50)\<close> of 800 by 600
  with a neighbor on every side has the visible area 806 by 608 at \<open>(97, 46)\<close>, which
  reaches beyond the logical area on every side.
\<close>

theorem get_visible_area_negative_gaps_counterexample:
  "get_visible_area all_neighbors
      (example_leaf\<lparr>config := \<lparr>inner_gaps_x = - 7, inner_gaps_y = - 9\<rparr>\<rparr>)
     = Rectangle 97 46 806 608
   \<and> \<not> rectangle_within
        (get_visible_area all_neighbors
           (example_leaf\<lparr>config := \<lparr>inner_gaps_x = - 7, inner_gaps_y = - 9\<rparr>\<rparr>))
        (logical_area (example_leaf\<lparr>config := \<lparr>inner_gaps_x = - 7, inner_gaps_y = - 9\<rparr>\<rparr>))
   \<and> \<not> pixels
        (get_visible_area all_neighbors
           (example_leaf\<lparr>config := \<lparr>inner_gaps_x = - 7, inner_gaps_y = - 9\<rparr>\<rparr>))
      \<subseteq> pixels (logical_area (example_leaf\<lparr>config := \<lparr>inner_gaps_x = - 7, inner_gaps_y = - 9\<rparr>\<rparr>))"
proof -
  let ?leaf = "example_leaf\<lparr>config := \<lparr>inner_gaps_x = - 7, inner_gaps_y = - 9\<rparr>\<rparr>"
  have v: "get_visible_area all_neighbors ?leaf = Rectangle 97 46 806 608"
    by (simp add: get_visible_area_eq example_leaf_def all_neighbors_def half_gap_div rect_simps)
  have l: "logical_area ?leaf = Rectangle 100 50 800 600"
    by (simp add: example_leaf_def)
  have w: "\<not> rectangle_within (Rectangle 97 46 806 608) (Rectangle 100 50 800 600)"
    by (simp add: rectangle_within_def rect_simps)
  have "(97, 46) \<in> pixels (Rectangle 97 46 806 608)"
    and "(97, 46) \<notin> pixels (Rectangle 100 50 800 600)"
    by (simp_all add: pixels_def rect_simps)
  then have p: "\<not> pixels (Rectangle 97 46 806 608) \<subseteq> pixels (Rectangle 100 50 800 600)"
    by blast
  from v l w p show ?thesis by simp
qed

text \<open>
  C1, amended: the visible area of a leaf is its logical area (the committed one, which
  is the logical area whenever no area is pending) with each side that has a neighbor
  moved inwards by the half gap of its axis, \<open>\<lceil>gap / 2\<rceil>\<close>, and every other side left
  where it is. The width and height lost together are the sum of the half gaps over
  exactly the sides with a neighbor. For gaps that are not negative the visible area lies
  within the logical area, edge by edge and pixel by pixel.
\<close>

theorem get_visible_area_shrinks_neighbor_sides:
  fixes neighbors leaf
  defines "v \<equiv> get_visible_area neighbors leaf"
    and "l \<equiv> logical_area leaf"
    and "c \<equiv> config leaf"
  shows "left_edge v = left_edge l + (if neighbors left then half_gap (inner_gaps_x c) else 0)
     \<and> right_edge v = right_edge l - (if neighbors right then half_gap (inner_gaps_x c) else 0)
     \<and> top_edge v = top_edge l + (if neighbors up then half_gap (inner_gaps_y c) else 0)
     \<and> bottom_edge v = bottom_edge l - (if neighbors down then half_gap (inner_gaps_y c) else 0)
     \<and> width (rsize l) - width (rsize v)
         = (\<Sum>d\<leftarrow>filter neighbors [left, right]. side_shrink c d)
     \<and> height (rsize l) - height (rsize v)
         = (\<Sum>d\<leftarrow>filter neighbors [up, down]. side_shrink c d)
     \<and> (width (rsize l) - width (rsize v)) + (height (rsize l) - height (rsize v))
         = (\<Sum>d\<leftarrow>filter neighbors [left, right, up, down]. side_shrink c d)
     \<and> (0 \<le> inner_gaps_x c \<and> 0 \<le> inner_gaps_y c \<longrightarrow> rectangle_within v l \<and> pixels v \<subseteq> pixels l)"
proof -
  let ?hx = "half_gap (inner_gaps_x c)" and ?hy = "half_gap (inner_gaps_y c)"
  have v: "v = Rectangle
       (left_edge l + (if neighbors left then ?hx else 0))
       (top_edge l + (if neighbors up then ?hy else 0))
       (width (rsize l) - (if neighbors left then ?hx else 0) - (if neighbors right then ?hx else 0))
       (height (rsize l) - (if neighbors up then ?hy else 0) - (if neighbors down then ?hy else 0))"
    unfolding v_def l_def c_def get_visible_area_eq left_edge_def top_edge_def by (rule refl)
  have e1: "left_edge v = left_edge l + (if neighbors left then ?hx else 0)"
    by (simp add: v rect_simps)
  have e2: "right_edge v = right_edge l - (if neighbors right then ?hx else 0)"
    by (simp add: v rect_simps) (simp add: right_edge_def left_edge_def)
  have e3: "top_edge v = top_edge l + (if neighbors up then ?hy else 0)"
    by (simp add: v rect_simps)
  have e4: "bottom_edge v = bottom_edge l - (if neighbors down then ?hy else 0)"
    by (simp add: v rect_simps) (simp add: bottom_edge_def top_edge_def)
  have w: "width (rsize l) - width (rsize v)
         = (\<Sum>d\<leftarrow>filter neighbors [left, right]. side_shrink c d)"
    by (simp add: v rect_simps)
  have h: "height (rsize l) - height (rsize v)
         = (\<Sum>d\<leftarrow>filter neighbors [up, down]. side_shrink c d)"
    by (simp add: v rect_simps)
  have e5: "(width (rsize l) - width (rsize v)) + (height (rsize l) - height (rsize v))
         = (\<Sum>d\<leftarrow>filter neighbors [left, right, up, down]. side_shrink c d)"
    unfolding sides_sum by (simp add: v rect_simps)
  have e6: "rectangle_within v l \<and> pixels v \<subseteq> pixels l"
    if "0 \<le> inner_gaps_x c \<and> 0 \<le> inner_gaps_y c"
  proof -
    from that have nonneg: "0 \<le> ?hx" "0 \<le> ?hy" by (simp_all add: half_gap_nonneg)
    have within: "rectangle_within v l"
      unfolding rectangle_within_def e1 e2 e3 e4 using nonneg by simp
    have "pixels v \<subseteq> pixels l"
      using within unfolding rectangle_within_def pixels_def by auto
    with within show ?thesis by simp
  qed
  from e1 e2 e3 e4 w h e5 e6 show ?thesis by blast
qed

text \<open>
  A leaf at \<open>(100, 50)\<close> of 800 by 600 with gaps 7 and 9 and a neighbor on every side:
  the half gaps are 4 and 5.
\<close>

theorem get_visible_area_shrinks_neighbor_sides_witness:
  "get_visible_area all_neighbors example_leaf = Rectangle 104 55 792 590
   \<and> rectangle_within (Rectangle 104 55 792 590) (Rectangle 100 50 800 600)
   \<and> (800 - 792) + (600 - 590) = (4 + 4 + 5 + (5::int))"
proof -
  have g: "0 \<le> inner_gaps_x (config example_leaf) \<and> 0 \<le> inner_gaps_y (config example_leaf)"
    by (simp add: example_leaf_def)
  have v: "get_visible_area all_neighbors example_leaf = Rectangle 104 55 792 590"
    by (simp add: get_visible_area_eq example_leaf_def all_neighbors_def half_gap_numeral rect_simps)
  from get_visible_area_shrinks_neighbor_sides [of all_neighbors example_leaf] g
  have "rectangle_within (get_visible_area all_neighbors example_leaf) (logical_area example_leaf)"
    by blast
  then have "rectangle_within (Rectangle 104 55 792 590) (Rectangle 100 50 800 600)"
    unfolding v by (simp add: example_leaf_def)
  with v show ?thesis by simp
qed

text \<open>
  C5: with inner gaps of 10 and 10, a leaf of 960 by 1080 at \<open>(0, 0)\<close> whose only
  neighbor is on its right has the visible area 955 by 1080 at \<open>(0, 0)\<close>, and a leaf of
  960 by 1080 at \<open>(960, 0)\<close> whose only neighbor is on its left has the visible area
  955 by 1080 at \<open>(965, 0)\<close>.
\<close>

theorem get_visible_area_two_leaves_horizontal:
  "get_visible_area (\<lambda>d. d = right)
      \<lparr>config = \<lparr>inner_gaps_x = 10, inner_gaps_y = 10\<rparr>, window = w1,
       logical_area = Rectangle 0 0 960 1080, next_logical_area = n1,
       next_state = s1, before_shown_state = b1\<rparr> = Rectangle 0 0 955 1080
   \<and> get_visible_area (\<lambda>d. d = left)
      \<lparr>config = \<lparr>inner_gaps_x = 10, inner_gaps_y = 10\<rparr>, window = w2,
       logical_area = Rectangle 960 0 960 1080, next_logical_area = n2,
       next_state = s2, before_shown_state = b2\<rparr> = Rectangle 965 0 955 1080"
  by (simp add: get_visible_area_eq rect_simps half_gap_numeral)

subsection \<open>Staging and committing\<close>

lemma constrain_eq:
  "constrain ni neighbors leaf calls = calls @ [constrain_call ni neighbors leaf calls]"
  by (simp add: constrain_def constrain_call_def)

lemma commit_state_None:
  "next_state leaf = None \<Longrightarrow> commit_state ni neighbors (leaf, calls) = (leaf, calls)"
  by (simp add: commit_state_def)

lemma commit_state_Some:
  "next_state leaf = Some st \<Longrightarrow>
   commit_state ni neighbors (leaf, calls) =
     (leaf\<lparr>next_state := None\<rparr>,
      calls @ [change_state (window leaf) st,
               constrain_call ni neighbors leaf (calls @ [change_state (window leaf) st])])"
  by (simp add: commit_state_def constrain_eq)

lemma commit_area_None:
  "next_logical_area leaf = None \<Longrightarrow> commit_area ni neighbors (leaf, calls) = (leaf, calls)"
  by (simp add: commit_area_def)

lemma commit_area_Some:
  "next_logical_area leaf = Some r \<Longrightarrow>
   commit_area ni neighbors (leaf, calls) =
     (leaf\<lparr>logical_area := r, next_logical_area := None\<rparr>,
      calls @ (if ti_is_fullscreen ni calls (window leaf) then []
               else [set_rectangle (window leaf) (get_visible_area neighbors leaf)
                       (get_visible_area neighbors (leaf\<lparr>logical_area := r, next_logical_area := None\<rparr>)),
                     constrain_call ni neighbors (leaf\<lparr>logical_area := r, next_logical_area := None\<rparr>)
                       (calls @ [set_rectangle (window leaf) (get_visible_area neighbors leaf)
                          (get_visible_area neighbors (leaf\<lparr>logical_area := r, next_logical_area := None\<rparr>))])]))"
  by (simp add: commit_area_def constrain_eq Let_def)

lemma commit_state_fields:
  "next_state (fst (commit_state ni neighbors (leaf, calls))) = None"
  "next_logical_area (fst (commit_state ni neighbors (leaf, calls))) = next_logical_area leaf"
  "logical_area (fst (commit_state ni neighbors (leaf, calls))) = logical_area leaf"
  "config (fst (commit_state ni neighbors (leaf, calls))) = config leaf"
  "window (fst (commit_state ni neighbors (leaf, calls))) = window leaf"
  by (cases "next_state leaf"; simp add: commit_state_None commit_state_Some)+

lemma commit_area_fields:
  "next_logical_area (fst (commit_area ni neighbors (leaf, calls))) = None"
  "next_state (fst (commit_area ni neighbors (leaf, calls))) = next_state leaf"
  "window (fst (commit_area ni neighbors (leaf, calls))) = window leaf"
  by (cases "next_logical_area leaf"; simp add: commit_area_None commit_area_Some)+

lemma commit_changes_pending_cleared:
  "next_state (fst (commit_changes ni neighbors s)) = None \<and>
   next_logical_area (fst (commit_changes ni neighbors s)) = None"
proof (cases s)
  case (Pair leaf calls)
  obtain leaf1 calls1 where c1: "commit_state ni neighbors (leaf, calls) = (leaf1, calls1)"
    by (cases "commit_state ni neighbors (leaf, calls)")
  have "next_state leaf1 = None"
    using commit_state_fields(1) [of ni neighbors leaf calls] c1 by simp
  then show ?thesis
    using commit_area_fields(1,2) [of ni neighbors leaf1 calls1] Pair c1
    by (simp add: commit_changes_def)
qed

lemma commit_changes_window:
  "window (fst (commit_changes ni neighbors (leaf, calls))) = window leaf"
proof -
  obtain leaf1 calls1 where c1: "commit_state ni neighbors (leaf, calls) = (leaf1, calls1)"
    by (cases "commit_state ni neighbors (leaf, calls)")
  have "window leaf1 = window leaf"
    using commit_state_fields(5) [of ni neighbors leaf calls] c1 by simp
  then show ?thesis
    using commit_area_fields(3) [of ni neighbors leaf1 calls1] c1
    by (simp add: commit_changes_def)
qed

text \<open>
  C2: \<open>commit_changes\<close> extends the calls made so far by the calls of the state step and
  then by those of the area step. The state step, when a state is pending, is
  \<open>change_state\<close> with that state and then the call of \<open>constrain\<close> (\<open>noclip\<close> or \<open>clip\<close>
  to the visible area, as the host answers \<open>is_fullscreen\<close> at that moment); otherwise it
  is empty. The area step, when an area is pending and the host says after the state
  step that the window is not fullscreen, is \<open>set_rectangle\<close> from the visible area
  before the change to the visible area of the new logical area, and then the call of
  \<open>constrain\<close>; otherwise it is empty. The committed logical area becomes the pending one
  when there is one, and both pending fields are cleared.
\<close>

theorem commit_changes_two_ordered_steps:
  fixes ni neighbors leaf calls
  defines "w \<equiv> window leaf"
  defines "state_calls \<equiv>
     (case next_state leaf of
        None \<Rightarrow> []
      | Some st \<Rightarrow> [change_state w st, constrain_call ni neighbors leaf (calls @ [change_state w st])])"
  defines "leaf' \<equiv> leaf\<lparr>logical_area := get_logical_area leaf, next_logical_area := None, next_state := None\<rparr>"
  defines "previous \<equiv> get_visible_area neighbors leaf"
  defines "area_calls \<equiv>
     (case next_logical_area leaf of
        None \<Rightarrow> []
      | Some r \<Rightarrow>
          if ti_is_fullscreen ni (calls @ state_calls) w then []
          else [set_rectangle w previous (get_visible_area neighbors leaf'),
                constrain_call ni neighbors leaf'
                  (calls @ state_calls @ [set_rectangle w previous (get_visible_area neighbors leaf')])])"
  shows "commit_changes ni neighbors (leaf, calls) = (leaf', calls @ state_calls @ area_calls)"
proof -
  obtain leaf1 where leaf1: "leaf1 = leaf\<lparr>next_state := None\<rparr>" by simp
  have s1: "commit_state ni neighbors (leaf, calls) = (leaf1, calls @ state_calls)"
    by (cases "next_state leaf")
       (simp_all add: commit_state_None commit_state_Some state_calls_def w_def leaf1)
  have f: "window leaf1 = w" "next_logical_area leaf1 = next_logical_area leaf"
    "get_visible_area neighbors leaf1 = previous"
    by (simp_all add: leaf1 w_def previous_def get_visible_area_eq)
  show ?thesis
  proof (cases "next_logical_area leaf")
    case None
    then have "leaf' = leaf1" by (simp add: leaf'_def leaf1 get_logical_area_def)
    with None f s1 show ?thesis
      by (simp add: commit_changes_def commit_area_None area_calls_def)
  next
    case (Some r)
    have l': "leaf1\<lparr>logical_area := r, next_logical_area := None\<rparr> = leaf'"
      by (simp add: leaf'_def leaf1 get_logical_area_def Some)
    from Some f have "next_logical_area leaf1 = Some r" by simp
    from commit_area_Some [OF this, of ni neighbors "calls @ state_calls"]
    show ?thesis
      unfolding commit_changes_def s1 l' f area_calls_def Some by simp
  qed
qed

text \<open>
  On a host that reports the state it was last given: a leaf with the restored state and
  a new area pending gets the four calls in order; with the maximized state pending, the
  area is committed without \<open>set_rectangle\<close>.
\<close>

theorem commit_changes_two_ordered_steps_witness:
  "commit_changes (example_host mir_window_state_hidden) all_neighbors
     (example_leaf\<lparr>next_state := Some mir_window_state_restored,
                   next_logical_area := Some (Rectangle 0 0 400 300)\<rparr>, [])
   = (example_leaf\<lparr>logical_area := Rectangle 0 0 400 300\<rparr>,
      [change_state 1 mir_window_state_restored,
       clip 1 (Rectangle 104 55 792 590),
       set_rectangle 1 (Rectangle 104 55 792 590) (Rectangle 4 5 392 290),
       clip 1 (Rectangle 4 5 392 290)])
   \<and> commit_changes (example_host mir_window_state_hidden) all_neighbors
     (example_leaf\<lparr>next_state := Some mir_window_state_maximized,
                   next_logical_area := Some (Rectangle 0 0 400 300)\<rparr>, [])
   = (example_leaf\<lparr>logical_area := Rectangle 0 0 400 300\<rparr>,
      [change_state 1 mir_window_state_maximized, noclip 1])"
  using commit_changes_two_ordered_steps [of "example_host mir_window_state_hidden" all_neighbors
          "example_leaf\<lparr>next_state := Some mir_window_state_restored,
                        next_logical_area := Some (Rectangle 0 0 400 300)\<rparr>" "[]"]
        commit_changes_two_ordered_steps [of "example_host mir_window_state_hidden" all_neighbors
          "example_leaf\<lparr>next_state := Some mir_window_state_maximized,
                        next_logical_area := Some (Rectangle 0 0 400 300)\<rparr>" "[]"]
  by (simp add: example_leaf_def example_host_def constrain_call_def get_logical_area_def
        get_visible_area_eq all_neighbors_def half_gap_numeral rect_simps)

text \<open>
  C3: \<open>get_logical_area\<close> is the pending area when one is set and the committed area
  otherwise. \<open>set_logical_area\<close> changes the pending area and nothing else, so the
  committed area is as before and \<open>get_logical_area\<close> is the staged rectangle; the
  committed area is that rectangle once \<open>commit_changes\<close> has run.
\<close>

theorem logical_area_is_staged_until_commit:
  "(next_logical_area leaf = Some r \<longrightarrow> get_logical_area leaf = r)
  \<and> (next_logical_area leaf = None \<longrightarrow> get_logical_area leaf = logical_area leaf)
  \<and> set_logical_area rect leaf = leaf\<lparr>next_logical_area := Some rect\<rparr>
  \<and> logical_area (set_logical_area rect leaf) = logical_area leaf
  \<and> get_logical_area (set_logical_area rect leaf) = rect
  \<and> logical_area (fst (commit_changes ni neighbors (set_logical_area rect leaf, calls))) = rect"
proof -
  have "logical_area (fst (commit_changes ni neighbors (set_logical_area rect leaf, calls))) = rect"
  proof -
    obtain l1 c1 where c: "commit_state ni neighbors (set_logical_area rect leaf, calls) = (l1, c1)"
      by (cases "commit_state ni neighbors (set_logical_area rect leaf, calls)")
    have "next_logical_area l1 = Some rect"
      using commit_state_fields(2) [of ni neighbors "set_logical_area rect leaf" calls] c
      by (simp add: set_logical_area_def)
    from commit_area_Some [OF this] c show ?thesis
      by (simp add: commit_changes_def)
  qed
  then show ?thesis
    by (simp add: get_logical_area_def set_logical_area_def)
qed

theorem logical_area_is_staged_until_commit_witness:
  "get_logical_area example_leaf = Rectangle 100 50 800 600
   \<and> get_logical_area (example_leaf\<lparr>next_logical_area := Some (Rectangle 0 0 400 300)\<rparr>)
        = Rectangle 0 0 400 300
   \<and> logical_area (set_logical_area (Rectangle 0 0 400 300) example_leaf) = Rectangle 100 50 800 600
   \<and> logical_area (fst (commit_changes (example_host mir_window_state_restored) all_neighbors
        (set_logical_area (Rectangle 0 0 400 300) example_leaf, []))) = Rectangle 0 0 400 300"
proof -
  let ?staged = "example_leaf\<lparr>next_logical_area := Some (Rectangle 0 0 400 300)\<rparr>"
  have n: "next_logical_area example_leaf = None"
    and l: "logical_area example_leaf = Rectangle 100 50 800 600"
    by (simp_all add: example_leaf_def)
  have s: "next_logical_area ?staged = Some (Rectangle 0 0 400 300)"
    by simp
  note a = logical_area_is_staged_until_commit
         [of example_leaf "Rectangle 0 0 400 300" "Rectangle 0 0 400 300"
             "example_host mir_window_state_restored" all_neighbors "[]"]
  note b = logical_area_is_staged_until_commit
         [of ?staged "Rectangle 0 0 400 300" "Rectangle 0 0 400 300"
             "example_host mir_window_state_restored" all_neighbors "[]"]
  from a n l have 1: "get_logical_area example_leaf = Rectangle 100 50 800 600" by metis
  from b s have 2: "get_logical_area ?staged = Rectangle 0 0 400 300" by blast
  from a l have 3: "logical_area (set_logical_area (Rectangle 0 0 400 300) example_leaf)
      = Rectangle 100 50 800 600" by metis
  from a have 4: "logical_area (fst (commit_changes (example_host mir_window_state_restored)
      all_neighbors (set_logical_area (Rectangle 0 0 400 300) example_leaf, []))) = Rectangle 0 0 400 300"
    by blast
  from 1 2 3 4 show ?thesis by blast
qed

text \<open>
  C7: with no pending state and no pending area, \<open>commit_changes\<close> returns the leaf and
  the list of host calls as they were. A commit leaves nothing pending, so committing
  once more after any commit changes nothing.
\<close>

theorem commit_changes_nothing_pending:
  "(next_state leaf = None \<and> next_logical_area leaf = None \<longrightarrow>
      commit_changes ni neighbors (leaf, calls) = (leaf, calls))
   \<and> commit_changes ni neighbors (commit_changes ni neighbors s) = commit_changes ni neighbors s"
proof -
  have noop: "commit_changes ni neighbors (l, cs) = (l, cs)"
    if "next_state l = None" "next_logical_area l = None" for l cs
    using that by (simp add: commit_changes_def commit_state_None commit_area_None)
  obtain l cs where s': "commit_changes ni neighbors s = (l, cs)"
    by (cases "commit_changes ni neighbors s")
  have "next_state l = None" "next_logical_area l = None"
    using commit_changes_pending_cleared [of ni neighbors s] s' by simp_all
  then have "commit_changes ni neighbors (l, cs) = (l, cs)" by (rule noop)
  with s' noop show ?thesis by simp
qed

theorem commit_changes_nothing_pending_witness:
  "commit_changes (example_host mir_window_state_restored) all_neighbors
     (example_leaf, [noclip 1]) = (example_leaf, [noclip 1])"
proof -
  have "next_state example_leaf = None \<and> next_logical_area example_leaf = None"
    by (simp add: example_leaf_def)
  with commit_changes_nothing_pending
         [of example_leaf "example_host mir_window_state_restored" all_neighbors "[noclip 1]"]
  show ?thesis by simp
qed

subsection \<open>Fullscreen, hide and show\<close>

text \<open>
  \<open>toggle_fullscreen\<close> on a window the host does not take for fullscreen stages the
  maximized state: that state is what a fullscreen leaf has.
\<close>

lemma toggle_fullscreen_stages_maximized:
  "\<not> ti_is_fullscreen ni calls (window leaf) \<Longrightarrow>
   next_state (toggle_fullscreen ni calls leaf) = Some mir_window_state_maximized"
  by (simp add: toggle_fullscreen_def)

text \<open>
  C6, as stated: \<open>is_fullscreen\<close> holds exactly when the state the host reports is the
  fullscreen state. It does not: for a window whose reported state is
  \<open>mir_window_state_fullscreen\<close> the method answers no.
\<close>

theorem is_fullscreen_counterexample:
  "\<not> (is_fullscreen (example_host mir_window_state_fullscreen) [] example_leaf
        \<longleftrightarrow> ti_get_state (example_host mir_window_state_fullscreen) [] (window example_leaf)
              = mir_window_state_fullscreen)"
  by (simp add: is_fullscreen_def example_host_def)

text \<open>
  C6, amended: \<open>is_fullscreen\<close> holds exactly when the state the host's \<open>get_state\<close>
  reports for the window is the maximized state, the state \<open>toggle_fullscreen\<close> stages to
  make a leaf fullscreen; in particular it does not hold for a window whose reported
  state is \<open>mir_window_state_fullscreen\<close>.
\<close>

theorem is_fullscreen_iff_maximized:
  "(is_fullscreen ni calls leaf \<longleftrightarrow> ti_get_state ni calls (window leaf) = mir_window_state_maximized)
   \<and> (ti_get_state ni calls (window leaf) = mir_window_state_fullscreen \<longrightarrow> \<not> is_fullscreen ni calls leaf)"
  by (simp add: is_fullscreen_def)

theorem is_fullscreen_iff_maximized_witness:
  "is_fullscreen (example_host mir_window_state_maximized) [] example_leaf
   \<and> \<not> is_fullscreen (example_host mir_window_state_fullscreen) [] example_leaf"
  using is_fullscreen_iff_maximized [of "example_host mir_window_state_maximized" "[]" example_leaf]
        is_fullscreen_iff_maximized [of "example_host mir_window_state_fullscreen" "[]" example_leaf]
  by (simp add: example_host_def)

text \<open>
  C4, as stated, ends: \<open>show\<close> on a leaf that was never hidden reapplies the current
  state. It does not: on a leaf with no snapshot and nothing pending, \<open>show\<close> does not
  stage the state the host reports, and the commit that follows makes no \<open>change_state\<close>
  call with it.
\<close>

theorem show_never_hidden_counterexample:
  "\<not> (next_state (show_leaf example_leaf)
         = Some (ti_get_state (example_host mir_window_state_restored) [] (window example_leaf)))
   \<and> change_state (window example_leaf)
         (ti_get_state (example_host mir_window_state_restored) [] (window example_leaf))
        \<notin> set (snd (commit_changes (example_host mir_window_state_restored) all_neighbors
                       (show_leaf example_leaf, [])))"
  by (simp add: show_leaf_def example_leaf_def commit_changes_def commit_state_None commit_area_None)

text \<open>
  C4, amended. \<open>hide\<close> saves the state the host reports as the snapshot and stages the
  hidden state. \<open>show\<close> after it stages exactly the snapshot and clears it. When the
  \<open>hide\<close> has been committed and the host then reports the hidden state, a second \<open>hide\<close>
  saves the hidden state, and that is what \<open>show\<close> then stages. \<open>show\<close> on a leaf with no
  snapshot stages nothing: the pending state and the snapshot are both absent afterwards,
  whatever was pending before, so the commit that follows applies no state (it is the
  area step alone, and nothing at all when no area is pending).
\<close>

theorem hide_show_snapshot:
  fixes ni neighbors calls leaf
  defines "committed \<equiv> commit_changes ni neighbors (hide ni calls leaf, calls)"
  shows
   "before_shown_state (hide ni calls leaf) = Some (ti_get_state ni calls (window leaf))
    \<and> next_state (hide ni calls leaf) = Some mir_window_state_hidden
    \<and> next_state (show_leaf (hide ni calls leaf)) = Some (ti_get_state ni calls (window leaf))
    \<and> before_shown_state (show_leaf (hide ni calls leaf)) = None
    \<and> (ti_get_state ni (snd committed) (window leaf) = mir_window_state_hidden \<longrightarrow>
          before_shown_state (hide ni (snd committed) (fst committed)) = Some mir_window_state_hidden
          \<and> next_state (show_leaf (hide ni (snd committed) (fst committed)))
               = Some mir_window_state_hidden)
    \<and> (before_shown_state leaf = None \<longrightarrow>
          next_state (show_leaf leaf) = None \<and> before_shown_state (show_leaf leaf) = None
          \<and> commit_changes ni neighbors (show_leaf leaf, calls)
              = commit_area ni neighbors (show_leaf leaf, calls)
          \<and> (next_logical_area leaf = None \<longrightarrow>
               commit_changes ni neighbors (show_leaf leaf, calls) = (show_leaf leaf, calls)))"
proof -
  have w: "window (fst committed) = window leaf"
    unfolding committed_def by (simp add: commit_changes_window hide_def)
  have again: "before_shown_state (hide ni (snd committed) (fst committed)) = Some mir_window_state_hidden
      \<and> next_state (show_leaf (hide ni (snd committed) (fst committed))) = Some mir_window_state_hidden"
    if "ti_get_state ni (snd committed) (window leaf) = mir_window_state_hidden"
    using that w by (simp add: hide_def show_leaf_def)
  have never: "next_state (show_leaf leaf) = None \<and> before_shown_state (show_leaf leaf) = None
          \<and> commit_changes ni neighbors (show_leaf leaf, calls)
              = commit_area ni neighbors (show_leaf leaf, calls)
          \<and> (next_logical_area leaf = None \<longrightarrow>
               commit_changes ni neighbors (show_leaf leaf, calls) = (show_leaf leaf, calls))"
    if "before_shown_state leaf = None"
    using that by (simp add: show_leaf_def commit_changes_def commit_state_None commit_area_None)
  have first: "before_shown_state (hide ni calls leaf) = Some (ti_get_state ni calls (window leaf))
    \<and> next_state (hide ni calls leaf) = Some mir_window_state_hidden
    \<and> next_state (show_leaf (hide ni calls leaf)) = Some (ti_get_state ni calls (window leaf))
    \<and> before_shown_state (show_leaf (hide ni calls leaf)) = None"
    by (simp add: hide_def show_leaf_def)
  from first again never show ?thesis by blast
qed

text \<open>
  On a host that reports the state it was last given, for a restored window: hiding and
  showing stages the restored state; hiding, committing and hiding again saves the hidden
  state; showing the leaf that was never hidden stages nothing.
\<close>

lemma example_hide_committed:
  "snd (commit_changes (example_host mir_window_state_restored) all_neighbors
         (hide (example_host mir_window_state_restored) [] example_leaf, []))
   = [change_state 1 mir_window_state_hidden, clip 1 (Rectangle 104 55 792 590)]"
  by (simp add: commit_changes_def commit_state_Some commit_area_None hide_def example_leaf_def
        example_host_def constrain_call_def get_visible_area_eq all_neighbors_def
        half_gap_numeral rect_simps)

theorem hide_show_snapshot_witness:
  "next_state (show_leaf (hide (example_host mir_window_state_restored) [] example_leaf))
     = Some mir_window_state_restored
   \<and> before_shown_state
        (hide (example_host mir_window_state_restored)
           (snd (commit_changes (example_host mir_window_state_restored) all_neighbors
              (hide (example_host mir_window_state_restored) [] example_leaf, [])))
           (fst (commit_changes (example_host mir_window_state_restored) all_neighbors
              (hide (example_host mir_window_state_restored) [] example_leaf, []))))
     = Some mir_window_state_hidden
   \<and> next_state (show_leaf example_leaf) = None"
proof -
  let ?H = "example_host mir_window_state_restored"
  have b: "before_shown_state example_leaf = None"
    by (simp add: example_leaf_def)
  have g0: "ti_get_state ?H [] (window example_leaf) = mir_window_state_restored"
    by (simp add: example_host_def)
  have g1: "ti_get_state ?H
      (snd (commit_changes ?H all_neighbors (hide ?H [] example_leaf, []))) (window example_leaf)
      = mir_window_state_hidden"
    unfolding example_hide_committed by (simp add: example_host_def example_leaf_def)
  from hide_show_snapshot [of ?H "[]" example_leaf all_neighbors] g0 g1 b
  show ?thesis by simp
qed

section \<open>Properties of OutputContent\<close>

subsection \<open>The active workspace\<close>

lemma find_active_workspace_none:
  "\<forall>info\<in>set ws. get_workspace info \<noteq> a \<Longrightarrow>
   find_active_workspace a ws = Inl (runtime_error ''get_active_workspace: unable to find the active workspace. We shouldn't be here!'')"
  by (induction ws) simp_all

lemma find_active_workspace_first:
  "\<exists>info\<in>set ws. get_workspace info = a \<Longrightarrow>
   \<exists>before info after. ws = before @ info # after \<and> (\<forall>i\<in>set before. get_workspace i \<noteq> a)
      \<and> get_workspace info = a \<and> find_active_workspace a ws = Inr info"
proof (induction ws)
  case Nil
  then show ?case by simp
next
  case (Cons w ws)
  show ?case
  proof (cases "get_workspace w = a")
    case True
    then have "w # ws = [] @ w # ws \<and> (\<forall>i\<in>set []. get_workspace i \<noteq> a)
      \<and> get_workspace w = a \<and> find_active_workspace a (w # ws) = Inr w" by simp
    then show ?thesis by blast
  next
    case False
    with Cons.prems have "\<exists>info\<in>set ws. get_workspace info = a" by auto
    from Cons.IH [OF this] obtain before info after where
      h: "ws = before @ info # after" "\<forall>i\<in>set before. get_workspace i \<noteq> a"
         "get_workspace info = a" "find_active_workspace a ws = Inr info" by blast
    from h False have "w # ws = (w # before) @ info # after \<and> (\<forall>i\<in>set (w # before). get_workspace i \<noteq> a)
      \<and> get_workspace info = a \<and> find_active_workspace a (w # ws) = Inr info" by simp
    then show ?thesis by blast
  qed
qed

text \<open>
  C8: when no workspace of the output has the active workspace's key,
  \<open>get_active_workspace\<close> throws the runtime error; it returns no workspace, null or
  default. When some workspace has the key, it returns one: the first in the list with
  that key.
\<close>

theorem get_active_workspace_found_or_throws:
  "((\<forall>info\<in>set (workspaces oc). get_workspace info \<noteq> active_workspace oc) \<longrightarrow>
      get_active_workspace oc
        = Inl (runtime_error ''get_active_workspace: unable to find the active workspace. We shouldn't be here!''))
   \<and> ((\<exists>info\<in>set (workspaces oc). get_workspace info = active_workspace oc) \<longrightarrow>
      (\<exists>before info after. workspaces oc = before @ info # after
         \<and> (\<forall>i\<in>set before. get_workspace i \<noteq> active_workspace oc)
         \<and> get_workspace info = active_workspace oc
         \<and> get_active_workspace oc = Inr info))"
  unfolding get_active_workspace_def
  using find_active_workspace_none [of "workspaces oc" "active_workspace oc"]
        find_active_workspace_first [of "workspaces oc" "active_workspace oc"]
  by blast

text \<open>
  An output with the workspaces 1 and 2: with 2 active the second workspace is returned;
  with 3 active the error is thrown.
\<close>

theorem get_active_workspace_found_or_throws_witness:
  "get_active_workspace (example_output False [] 7)
     = Inr \<lparr>workspace_key = 2, tree = example_tree False, floating_windows = []\<rparr>
   \<and> get_active_workspace ((example_output False [] 7)\<lparr>active_workspace := 3\<rparr>)
     = Inl (runtime_error ''get_active_workspace: unable to find the active workspace. We shouldn't be here!'')"
proof -
  let ?oc = "example_output False [] 7"
  let ?w1 = "\<lparr>workspace_key = 1, tree = example_tree False, floating_windows = []\<rparr>"
  let ?w2 = "\<lparr>workspace_key = 2, tree = example_tree False, floating_windows = []\<rparr>"
  have ws: "workspaces ?oc = [?w1, ?w2]" and a: "active_workspace ?oc = 2"
    by (simp_all add: example_output_def)
  have k: "get_workspace ?w1 = 1" "get_workspace ?w2 = 2"
    by (simp_all add: get_workspace_def)
  have "\<exists>info\<in>set (workspaces ?oc). get_workspace info = active_workspace ?oc"
    unfolding ws a using k by simp
  with get_active_workspace_found_or_throws [of ?oc] obtain before info after where
    h: "workspaces ?oc = before @ info # after" "get_workspace info = active_workspace ?oc"
       "get_active_workspace ?oc = Inr info" by blast
  from h(1) have "info \<in> set (workspaces ?oc)" by simp
  with h(2) have "info = ?w2" unfolding ws a using k by auto
  with h(3) have 1: "get_active_workspace ?oc = Inr ?w2" by simp
  have "\<forall>info\<in>set (workspaces (?oc\<lparr>active_workspace := 3\<rparr>)).
          get_workspace info \<noteq> active_workspace (?oc\<lparr>active_workspace := 3\<rparr>)"
    using k by (simp add: ws)
  with get_active_workspace_found_or_throws [of "?oc\<lparr>active_workspace := 3\<rparr>"]
  have 2: "get_active_workspace (?oc\<lparr>active_workspace := 3\<rparr>)
     = Inl (runtime_error ''get_active_workspace: unable to find the active workspace. We shouldn't be here!'')"
    by blast
  from 1 2 show ?thesis by blast
qed

subsection \<open>Confirming a placement\<close>

text \<open>
  C10: for a tiled window with a tiling node, \<open>confirm_placement_on_display\<close> returns
  the placement it was given, whatever rectangle the tree leaves in the copy it is handed
  (with no tiling node the call goes through a null pointer). For a floating window it
  returns what the floating window manager answers. Whenever the window is not floating
  and a rectangle is returned, it is the placement given.
\<close>

theorem confirm_placement_on_display_tiled_unchanged:
  "(md_type metadata = tiled \<longrightarrow>
      (\<forall>t. md_tiling_node metadata = Some t \<longrightarrow>
         confirm_placement_on_display env metadata new_state new_placement = Inr new_placement)
      \<and> (md_tiling_node metadata = None \<longrightarrow>
         confirm_placement_on_display env metadata new_state new_placement = Inl null_dereference))
   \<and> (md_type metadata = floating \<longrightarrow>
        confirm_placement_on_display env metadata new_state new_placement
          = Inr (fwm_confirm_placement_on_display env (md_window metadata) new_state new_placement))
   \<and> (md_type metadata \<noteq> floating \<longrightarrow>
        (\<forall>r. confirm_placement_on_display env metadata new_state new_placement = Inr r \<longrightarrow> r = new_placement))"
  by (cases "md_type metadata"; cases "md_tiling_node metadata")
     (simp_all add: confirm_placement_on_display_def get_tiling_node_def Let_def)

text \<open>
  The tree of the example turns every placement into \<open>(5, 5)\<close>, 10 by 10, and the tiled
  window still gets its placement back; the floating window gets the floating window
  manager's rectangle.
\<close>

theorem confirm_placement_on_display_tiled_unchanged_witness:
  "confirm_placement_on_display example_env
      \<lparr>md_type = tiled, md_window = 1, md_tiling_node = Some (example_tree False)\<rparr>
      mir_window_state_restored (Rectangle 0 0 640 480) = Inr (Rectangle 0 0 640 480)
   \<and> tree_confirm_placement_on_display (example_tree False) 1 mir_window_state_restored
        (Rectangle 0 0 640 480) = Rectangle 5 5 10 10
   \<and> confirm_placement_on_display example_env
      \<lparr>md_type = floating, md_window = 1, md_tiling_node = None\<rparr>
      mir_window_state_restored (Rectangle 0 0 640 480) = Inr (Rectangle 0 0 1 1)"
  using confirm_placement_on_display_tiled_unchanged [of "\<lparr>md_type = tiled, md_window = 1, md_tiling_node = Some (example_tree False)\<rparr>"
               example_env mir_window_state_restored "Rectangle 0 0 640 480"]
        confirm_placement_on_display_tiled_unchanged [of "\<lparr>md_type = floating, md_window = 1, md_tiling_node = None\<rparr>"
               example_env mir_window_state_restored "Rectangle 0 0 640 480"]
  by (simp add: example_tree_def example_env_def)

subsection \<open>Selecting a window from a point\<close>

lemma floating_loop_None:
  "floating_loop env a x y fs i idx = None \<longleftrightarrow> a \<in> set fs \<and> point_in_window env x y a"
  by (induction fs arbitrary: i idx) (auto simp: Let_def point_in_window_def)

lemma floating_loop_no_hit:
  "floating_loop env a x y fs i idx = Some r \<Longrightarrow> \<forall>f\<in>set fs. \<not> point_in_window env x y f \<Longrightarrow> r = idx"
  by (induction fs arbitrary: i idx) (auto simp: Let_def point_in_window_def split: if_splits)

lemma floating_loop_last_hit:
  "floating_loop env a x y fs i idx = Some r \<Longrightarrow> \<exists>f\<in>set fs. point_in_window env x y f \<Longrightarrow>
   \<exists>before f after. fs = before @ f # after \<and> r = i + int (length before)
      \<and> point_in_window env x y f \<and> (\<forall>g\<in>set after. \<not> point_in_window env x y g)"
proof (induction fs arbitrary: i idx)
  case Nil
  then show ?case by simp
next
  case (Cons f rest)
  from Cons.prems(1) have notret: "\<not> (f = a \<and> point_in_window env x y f)"
    by (auto simp: Let_def point_in_window_def split: if_splits)
  show ?case
  proof (cases "\<exists>g\<in>set rest. point_in_window env x y g")
    case True
    from Cons.prems(1) notret obtain idx' where
      rec: "floating_loop env a x y rest (i + 1) idx' = Some r"
      by (auto simp: Let_def point_in_window_def split: if_splits)
    from Cons.IH [OF rec True] obtain before g after where
      h: "rest = before @ g # after" "r = i + 1 + int (length before)"
         "point_in_window env x y g" "\<forall>k\<in>set after. \<not> point_in_window env x y k" by blast
    then have "f # rest = (f # before) @ g # after \<and> r = i + int (length (f # before))
      \<and> point_in_window env x y g \<and> (\<forall>k\<in>set after. \<not> point_in_window env x y k)" by simp
    then show ?thesis by blast
  next
    case False
    with Cons.prems(2) have hit: "point_in_window env x y f" by auto
    with Cons.prems(1) notret have rec: "floating_loop env a x y rest (i + 1) i = Some r"
      by (auto simp: Let_def point_in_window_def split: if_splits)
    from floating_loop_no_hit [OF rec] False have "r = i" by blast
    with hit False have "f # rest = [] @ f # rest \<and> r = i + int (length ([]::window list))
      \<and> point_in_window env x y f \<and> (\<forall>k\<in>set rest. \<not> point_in_window env x y k)" by simp
    then show ?thesis by blast
  qed
qed

lemma select_fullscreen:
  "get_active_workspace oc = Inr ws \<Longrightarrow> has_fullscreen_window (get_tree ws) \<Longrightarrow>
   select_window_from_point env oc x y = Inr []"
  by (simp add: select_window_from_point_def)

lemma select_active_floating:
  "get_active_workspace oc = Inr ws \<Longrightarrow> \<not> has_fullscreen_window (get_tree ws) \<Longrightarrow>
   active_window oc \<in> set (get_floating_windows ws) \<Longrightarrow> point_in_window env x y (active_window oc) \<Longrightarrow>
   select_window_from_point env oc x y = Inr []"
proof -
  assume a: "get_active_workspace oc = Inr ws" "\<not> has_fullscreen_window (get_tree ws)"
    "active_window oc \<in> set (get_floating_windows ws)" "point_in_window env x y (active_window oc)"
  then have "floating_loop env (active_window oc) x y (get_floating_windows ws) 0 (- 1) = None"
    by (simp add: floating_loop_None)
  with a show ?thesis by (simp add: select_window_from_point_def)
qed

lemma select_other_floating:
  assumes a: "get_active_workspace oc = Inr ws" "\<not> has_fullscreen_window (get_tree ws)"
    and hit: "\<exists>f\<in>set (get_floating_windows ws). point_in_window env x y f"
    and na: "\<not> (active_window oc \<in> set (get_floating_windows ws) \<and> point_in_window env x y (active_window oc))"
  shows "\<exists>before f after. get_floating_windows ws = before @ f # after \<and> point_in_window env x y f
      \<and> (\<forall>g\<in>set after. \<not> point_in_window env x y g)
      \<and> select_window_from_point env oc x y = Inr [select_active_window f]"
proof -
  let ?fl = "get_floating_windows ws"
  from na have "floating_loop env (active_window oc) x y ?fl 0 (- 1) \<noteq> None"
    by (simp add: floating_loop_None)
  then obtain r where r: "floating_loop env (active_window oc) x y ?fl 0 (- 1) = Some r"
    by blast
  from floating_loop_last_hit [OF r hit] obtain before f after where
    h: "?fl = before @ f # after" "r = 0 + int (length before)" "point_in_window env x y f"
       "\<forall>g\<in>set after. \<not> point_in_window env x y g" by blast
  from h(1,2) have nth: "?fl ! nat r = f" and pos: "0 \<le> r" by simp_all
  from a r nth pos have "select_window_from_point env oc x y = Inr [select_active_window f]"
    by (simp add: select_window_from_point_def Let_def)
  with h show ?thesis by blast
qed

lemma select_tree:
  assumes a: "get_active_workspace oc = Inr ws" "\<not> has_fullscreen_window (get_tree ws)"
    and nohit: "\<forall>f\<in>set (get_floating_windows ws). \<not> point_in_window env x y f"
  shows "select_window_from_point env oc x y =
     Inr (tree_select_from_point x y #
          (case tree_select_window_from_point (get_tree ws) x y of
             None \<Rightarrow> []
           | Some node \<Rightarrow>
               if window node \<noteq> active_window oc then [select_active_window (window node)] else []))"
proof -
  let ?fl = "get_floating_windows ws"
  from nohit have "floating_loop env (active_window oc) x y ?fl 0 (- 1) \<noteq> None"
    by (auto simp: floating_loop_None)
  then obtain r where r: "floating_loop env (active_window oc) x y ?fl 0 (- 1) = Some r"
    by blast
  from floating_loop_no_hit [OF r nohit] have "r = - 1" .
  with a r show ?thesis
    by (simp add: select_window_from_point_def Let_def split: option.split)
qed

text \<open>
  C9: let \<open>ws\<close> be the active workspace. When its tree has a fullscreen window,
  \<open>select_window_from_point\<close> makes no call at all. Otherwise: when the active window is
  one of the floating windows and contains the point, it makes no call; when some other
  floating window contains the point, it selects a floating window containing the point
  (the last such in the list) and does not ask the tree; when no floating window contains
  the point, it asks the tree, and selects the window of the leaf found unless there is
  none or it is the active window. So the tree is asked only if no window is fullscreen
  and no floating window contains the point.
\<close>

theorem select_window_from_point_priority:
  fixes env oc x y ws
  defines "result \<equiv> select_window_from_point env oc x y"
    and "fl \<equiv> get_floating_windows ws"
    and "fullscreen \<equiv> has_fullscreen_window (get_tree ws)"
    and "active_hit \<equiv> active_window oc \<in> set (get_floating_windows ws) \<and> point_in_window env x y (active_window oc)"
  shows "get_active_workspace oc = Inr ws \<longrightarrow>
     (fullscreen \<longrightarrow> result = Inr [])
   \<and> (\<not> fullscreen \<and> active_hit \<longrightarrow> result = Inr [])
   \<and> (\<not> fullscreen \<and> \<not> active_hit \<and> (\<exists>f\<in>set fl. point_in_window env x y f) \<longrightarrow>
        (\<exists>before f after. fl = before @ f # after \<and> point_in_window env x y f
           \<and> (\<forall>g\<in>set after. \<not> point_in_window env x y g)
           \<and> result = Inr [select_active_window f]))
   \<and> (\<not> fullscreen \<and> (\<forall>f\<in>set fl. \<not> point_in_window env x y f) \<longrightarrow>
        result = Inr (tree_select_from_point x y #
          (case tree_select_window_from_point (get_tree ws) x y of
             None \<Rightarrow> []
           | Some node \<Rightarrow>
               if window node \<noteq> active_window oc then [select_active_window (window node)] else [])))
   \<and> (\<forall>calls. result = Inr calls \<and> tree_select_from_point x y \<in> set calls \<longrightarrow>
        \<not> fullscreen \<and> (\<forall>f\<in>set fl. \<not> point_in_window env x y f))"
proof
  assume ws: "get_active_workspace oc = Inr ws"
  have 1: "fullscreen \<longrightarrow> result = Inr []"
    unfolding fullscreen_def result_def using select_fullscreen [OF ws] by blast
  have 2: "\<not> fullscreen \<and> active_hit \<longrightarrow> result = Inr []"
    unfolding fullscreen_def result_def active_hit_def using select_active_floating [OF ws] by blast
  have 3: "\<not> fullscreen \<and> \<not> active_hit \<and> (\<exists>f\<in>set fl. point_in_window env x y f) \<longrightarrow>
        (\<exists>before f after. fl = before @ f # after \<and> point_in_window env x y f
           \<and> (\<forall>g\<in>set after. \<not> point_in_window env x y g)
           \<and> result = Inr [select_active_window f])"
    unfolding fullscreen_def result_def active_hit_def fl_def
    using select_other_floating [OF ws] by blast
  have 4: "\<not> fullscreen \<and> (\<forall>f\<in>set fl. \<not> point_in_window env x y f) \<longrightarrow>
        result = Inr (tree_select_from_point x y #
          (case tree_select_window_from_point (get_tree ws) x y of
             None \<Rightarrow> []
           | Some node \<Rightarrow>
               if window node \<noteq> active_window oc then [select_active_window (window node)] else []))"
    unfolding fullscreen_def result_def fl_def
    using select_tree [OF ws] by blast
  have 5: "\<not> fullscreen \<and> (\<forall>f\<in>set fl. \<not> point_in_window env x y f)"
    if c: "result = Inr calls \<and> tree_select_from_point x y \<in> set calls" for calls
  proof -
    from c 1 have nf: "\<not> fullscreen" by auto
    from c 2 nf have na: "\<not> active_hit" by auto
    have "\<not> (\<exists>f\<in>set fl. point_in_window env x y f)"
    proof
      assume "\<exists>f\<in>set fl. point_in_window env x y f"
      with 3 nf na obtain f where "result = Inr [select_active_window f]" by blast
      with c show False by auto
    qed
    with nf show ?thesis by blast
  qed
  from 1 2 3 4 5 show "(fullscreen \<longrightarrow> result = Inr [])
   \<and> (\<not> fullscreen \<and> active_hit \<longrightarrow> result = Inr [])
   \<and> (\<not> fullscreen \<and> \<not> active_hit \<and> (\<exists>f\<in>set fl. point_in_window env x y f) \<longrightarrow>
        (\<exists>before f after. fl = before @ f # after \<and> point_in_window env x y f
           \<and> (\<forall>g\<in>set after. \<not> point_in_window env x y g)
           \<and> result = Inr [select_active_window f]))
   \<and> (\<not> fullscreen \<and> (\<forall>f\<in>set fl. \<not> point_in_window env x y f) \<longrightarrow>
        result = Inr (tree_select_from_point x y #
          (case tree_select_window_from_point (get_tree ws) x y of
             None \<Rightarrow> []
           | Some node \<Rightarrow>
               if window node \<noteq> active_window oc then [select_active_window (window node)] else [])))
   \<and> (\<forall>calls. result = Inr calls \<and> tree_select_from_point x y \<in> set calls \<longrightarrow>
        \<not> fullscreen \<and> (\<forall>f\<in>set fl. \<not> point_in_window env x y f))"
    by blast
qed

text \<open>
  The floating windows 3 and 4 are the boxes from \<open>x = 300\<close> and \<open>x = 400\<close>; the point
  \<open>(350, 50)\<close> is in window 3 only, the point \<open>(550, 50)\<close> in neither.
\<close>

lemma example_output_active_workspace: "get_active_workspace (example_output fs fl a) = Inr \<lparr>workspace_key = 2, tree = example_tree fs, floating_windows = fl\<rparr>"
  by (simp add: get_active_workspace_def example_output_def get_workspace_def)

lemma example_point_in_window: "point_in_window example_env x y f \<longleftrightarrow> 100 * int f \<le> x \<and> x < 100 * int f + 100 \<and> 0 \<le> y \<and> y < 100"
  by (simp add: point_in_window_def example_env_def)

theorem select_window_from_point_priority_witness:
  "select_window_from_point example_env (example_output True [3, 4] 7) 350 50 = Inr []
   \<and> select_window_from_point example_env (example_output False [3, 4] 3) 350 50 = Inr []
   \<and> select_window_from_point example_env (example_output False [3, 4] 7) 350 50
        = Inr [select_active_window 3]
   \<and> select_window_from_point example_env (example_output False [3, 4] 7) 550 50
        = Inr [tree_select_from_point 550 50, select_active_window 1]"
proof -
  let ?ws = "\<lambda>fs. \<lparr>workspace_key = 2, tree = example_tree fs, floating_windows = [3, 4]\<rparr>"
  have fl: "get_floating_windows (?ws fs) = [3, 4]" for fs
    by (simp add: get_floating_windows_def)
  have fs: "has_fullscreen_window (get_tree (?ws fs)) = fs" for fs
    by (simp add: get_tree_def example_tree_def)
  have aw: "active_window (example_output fs [3, 4] a) = a" for fs a
    by (simp add: example_output_def)
  have hit3: "point_in_window example_env 350 50 3" and nohit4: "\<not> point_in_window example_env 350 50 4"
    and nohit7: "\<not> point_in_window example_env 350 50 7"
    and nohit: "\<forall>f\<in>set [3, 4]. \<not> point_in_window example_env 550 50 f"
    by (simp_all add: example_point_in_window)
  have only3: "f = 3" if "point_in_window example_env 350 50 f" for f
    using that unfolding example_point_in_window by arith
  have sel: "tree_select_window_from_point (get_tree (?ws False)) 550 50 = Some example_leaf"
    by (simp add: get_tree_def example_tree_def)
  have w1: "window example_leaf = 1" by (simp add: example_leaf_def)
  note t = select_window_from_point_priority [of "example_output True [3, 4] 7" "?ws True" example_env 350 50,
                THEN mp, OF example_output_active_workspace [of True "[3, 4]" 7]]
  have 1: "select_window_from_point example_env (example_output True [3, 4] 7) 350 50 = Inr []"
    by (rule t [THEN conjunct1, THEN mp]) (simp add: fs)
  note a = select_window_from_point_priority [of "example_output False [3, 4] 3" "?ws False" example_env 350 50,
                THEN mp, OF example_output_active_workspace [of False "[3, 4]" 3]]
  have 2: "select_window_from_point example_env (example_output False [3, 4] 3) 350 50 = Inr []"
    by (rule a [THEN conjunct2, THEN conjunct1, THEN mp]) (simp add: fs fl aw hit3)
  note o = select_window_from_point_priority [of "example_output False [3, 4] 7" "?ws False" example_env 350 50,
                THEN mp, OF example_output_active_workspace [of False "[3, 4]" 7]]
  have "\<exists>before f after. get_floating_windows (?ws False) = before @ f # after
      \<and> point_in_window example_env 350 50 f
      \<and> (\<forall>g\<in>set after. \<not> point_in_window example_env 350 50 g)
      \<and> select_window_from_point example_env (example_output False [3, 4] 7) 350 50
           = Inr [select_active_window f]"
    by (rule o [THEN conjunct2, THEN conjunct2, THEN conjunct1, THEN mp])
       (simp add: fs fl aw hit3 nohit7)
  then have 3: "select_window_from_point example_env (example_output False [3, 4] 7) 350 50
        = Inr [select_active_window 3]"
    using only3 by blast
  note n = select_window_from_point_priority [of "example_output False [3, 4] 7" "?ws False" example_env 550 50,
                THEN mp, OF example_output_active_workspace [of False "[3, 4]" 7]]
  have pre: "\<not> has_fullscreen_window (get_tree (?ws False))
      \<and> (\<forall>f\<in>set (get_floating_windows (?ws False)). \<not> point_in_window example_env 550 50 f)"
    using nohit by (simp only: fs fl) simp
  have 4: "select_window_from_point example_env (example_output False [3, 4] 7) 550 50
        = Inr [tree_select_from_point 550 50, select_active_window 1]"
    using n [THEN conjunct2, THEN conjunct2, THEN conjunct2, THEN conjunct1, THEN mp, OF pre]
    by (simp add: sel w1 aw)
  from 1 2 3 4 show ?thesis by blast
qed

end
